theory Spec2Isabelle
  imports Main "HOL-Library.Sublist"
begin

section \<open>Python values of the NGWAF audit script\<close>

text \<open>
  The development embeds \<^verbatim>\<open>fastly_vcl_ngwaf_checker_ver3_client_challenge_check.py\<close>.
  A Python \<^verbatim>\<open>str\<close> is a sequence of Unicode code points, so it is a list of naturals
  here; \<open>ustr\<close> turns an ASCII literal of the source into that form.
\<close>

type_synonym pystr = "nat list"

definition ustr :: "string \<Rightarrow> pystr" where
  "ustr s = map of_char s"

text \<open>
  What \<^verbatim>\<open>response.json()\<close> produces: \<^verbatim>\<open>None\<close>, booleans, integers, strings, lists and
  dicts. A dict is an association list with distinct keys, in insertion order.
  Numbers with a fractional part are not modelled.
\<close>

datatype json =
    JNull
  | JBool bool
  | JInt int
  | JStr pystr
  | JArr "json list"
  | JObj "(pystr \<times> json) list"

datatype py_error = AttributeError | TypeError

text \<open>Truthiness, as \<^verbatim>\<open>not x\<close>, \<^verbatim>\<open>x or y\<close> and \<^verbatim>\<open>if x\<close> test it.\<close>

fun py_truthy :: "json \<Rightarrow> bool" where
  "py_truthy JNull = False"
| "py_truthy (JBool b) = b"
| "py_truthy (JInt n) = (n \<noteq> 0)"
| "py_truthy (JStr s) = (s \<noteq> [])"
| "py_truthy (JArr xs) = (xs \<noteq> [])"
| "py_truthy (JObj kvs) = (kvs \<noteq> [])"

fun is_dict :: "json \<Rightarrow> bool" where
  "is_dict (JObj kvs) = True"
| "is_dict _ = False"

text \<open>\<^verbatim>\<open>d.get(key, default)\<close> on a value already known to be a dict.\<close>

definition dict_get :: "(pystr \<times> json) list \<Rightarrow> pystr \<Rightarrow> json \<Rightarrow> json" where
  "dict_get kvs k d = (case map_of kvs k of None \<Rightarrow> d | Some v \<Rightarrow> v)"

text \<open>\<^verbatim>\<open>x.get(key, default)\<close> with no guard: only a dict has the method.\<close>

fun py_get :: "json \<Rightarrow> pystr \<Rightarrow> json \<Rightarrow> py_error + json" where
  "py_get (JObj kvs) k d = Inr (dict_get kvs k d)"
| "py_get _ k d = Inl AttributeError"

text \<open>
  Iterating a value, as \<^verbatim>\<open>list.extend\<close> does: a list gives its items, a string its
  characters, a dict its keys; the other values are not iterable.
\<close>

fun py_iter :: "json \<Rightarrow> py_error + json list" where
  "py_iter (JArr xs) = Inr xs"
| "py_iter (JStr s) = Inr (map (\<lambda>c. JStr [c]) s)"
| "py_iter (JObj kvs) = Inr (map (\<lambda>kv. JStr (fst kv)) kvs)"
| "py_iter _ = Inl TypeError"

subsection \<open>Rendering values as text\<close>

function digits_of :: "nat \<Rightarrow> pystr" where
  "digits_of n = (if n < 10 then [48 + n] else digits_of (n div 10) @ [48 + n mod 10])"
  by pat_completeness auto
termination
  by (relation "measure (\<lambda>n. n)") auto

declare digits_of.simps [simp del]

definition str_int :: "int \<Rightarrow> pystr" where
  "str_int i = (if i < 0 then 45 # digits_of (nat (- i)) else digits_of (nat i))"

text \<open>
  \<^verbatim>\<open>str(x)\<close>. The text of a list or a dict is Python's \<^verbatim>\<open>repr\<close> of it, which the
  source does not define; it is the parameter \<open>rp\<close>.
\<close>

fun py_str :: "(json \<Rightarrow> pystr) \<Rightarrow> json \<Rightarrow> pystr" where
  "py_str rp JNull = ustr ''None''"
| "py_str rp (JBool b) = (if b then ustr ''True'' else ustr ''False'')"
| "py_str rp (JInt i) = str_int i"
| "py_str rp (JStr s) = s"
| "py_str rp (JArr xs) = rp (JArr xs)"
| "py_str rp (JObj kvs) = rp (JObj kvs)"

text \<open>A status code is an integer or \<^verbatim>\<open>None\<close>.\<close>

definition str_status :: "int option \<Rightarrow> pystr" where
  "str_status st = (case st of None \<Rightarrow> ustr ''None'' | Some c \<Rightarrow> str_int c)"

section \<open>The regular expression of the directive\<close>

text \<open>
  The pattern of \<^verbatim>\<open>check_client_challenge\<close> is a sequence of single characters and
  \<^verbatim>\<open>\s\<close>, each taken once or under \<^verbatim>\<open>+\<close>, \<^verbatim>\<open>*\<close>, \<^verbatim>\<open>?\<close>. The matcher decides whether
  some way of matching exists, which is what the truth value of \<^verbatim>\<open>re.search\<close> reports.
\<close>

datatype atom = Lit nat | WhiteSpace

datatype quant = Once | Plus | Star | Opt

type_synonym regex = "(atom \<times> quant) list"

text \<open>\<^verbatim>\<open>\s\<close> on a \<^verbatim>\<open>str\<close> pattern: the characters for which \<^verbatim>\<open>str.isspace\<close> holds.\<close>

definition py_isspace :: "nat \<Rightarrow> bool" where
  "py_isspace c = ((9 \<le> c \<and> c \<le> 13) \<or> (28 \<le> c \<and> c \<le> 32) \<or> c = 133 \<or> c = 160
     \<or> c = 5760 \<or> (8192 \<le> c \<and> c \<le> 8202) \<or> c = 8232 \<or> c = 8233 \<or> c = 8239
     \<or> c = 8287 \<or> c = 12288)"

definition ascii_lower :: "nat \<Rightarrow> nat" where
  "ascii_lower c = (if 65 \<le> c \<and> c \<le> 90 then c + 32 else c)"

definition ascii_letter :: "nat \<Rightarrow> bool" where
  "ascii_letter c = ((65 \<le> c \<and> c \<le> 90) \<or> (97 \<le> c \<and> c \<le> 122))"

text \<open>
  A literal ASCII character \<open>p\<close> of the pattern against a character \<open>x\<close> of the text
  under \<^verbatim>\<open>re.IGNORECASE\<close>: a letter matches both of its cases, and the characters
  outside ASCII that Unicode folds onto it (dotted capital and dotless small i for
  \<^verbatim>\<open>i\<close>, long s for \<^verbatim>\<open>s\<close>, the Kelvin sign for \<^verbatim>\<open>k\<close>).
\<close>

definition lit_ignorecase :: "nat \<Rightarrow> nat \<Rightarrow> bool" where
  "lit_ignorecase p x =
     (if ascii_letter p then
        (let lo = ascii_lower p in
           ascii_lower x = lo
           \<or> (lo = 105 \<and> (x = 304 \<or> x = 305))
           \<or> (lo = 115 \<and> x = 383)
           \<or> (lo = 107 \<and> x = 8490))
      else x = p)"

fun atom_ok :: "atom \<Rightarrow> nat \<Rightarrow> bool" where
  "atom_ok (Lit p) x = lit_ignorecase p x"
| "atom_ok WhiteSpace x = py_isspace x"

fun match_here :: "regex \<Rightarrow> pystr \<Rightarrow> bool" where
  "match_here [] s = True"
| "match_here ((a, Once) # r) [] = False"
| "match_here ((a, Once) # r) (x # xs) = (atom_ok a x \<and> match_here r xs)"
| "match_here ((a, Plus) # r) [] = False"
| "match_here ((a, Plus) # r) (x # xs) = (atom_ok a x \<and> match_here ((a, Star) # r) xs)"
| "match_here ((a, Star) # r) [] = match_here r []"
| "match_here ((a, Star) # r) (x # xs) =
     ((atom_ok a x \<and> match_here ((a, Star) # r) xs) \<or> match_here r (x # xs))"
| "match_here ((a, Opt) # r) [] = match_here r []"
| "match_here ((a, Opt) # r) (x # xs) =
     ((atom_ok a x \<and> match_here r xs) \<or> match_here r (x # xs))"

text \<open>\<^verbatim>\<open>re.search(r, s, re.IGNORECASE)\<close> as a truth value: a match at some position.\<close>

fun re_search :: "regex \<Rightarrow> pystr \<Rightarrow> bool" where
  "re_search r [] = match_here r []"
| "re_search r (x # xs) = (match_here r (x # xs) \<or> re_search r xs)"

definition lits :: "string \<Rightarrow> regex" where
  "lits w = map (\<lambda>c. (Lit (of_char c), Once)) w"

definition exact_match :: pystr where
  "exact_match = ustr ''pragma optional_param client_challenge_enabled true;''"

text \<open>
  \<^verbatim>\<open>r'pragma\s+optional_param\s+client_challenge_enabled\s+true\s*(?:;)?'\<close>
\<close>

definition pattern :: regex where
  "pattern =
     lits ''pragma'' @ [(WhiteSpace, Plus)] @
     lits ''optional_param'' @ [(WhiteSpace, Plus)] @
     lits ''client_challenge_enabled'' @ [(WhiteSpace, Plus)] @
     lits ''true'' @ [(WhiteSpace, Star), (Lit 59, Opt)]"

section \<open>Transport\<close>

text \<open>
  An endpoint keeps the fields that the source formats into the request path:
  the account and the page number and size of the service listing, the service
  identifier, the version text and the snippet name.
\<close>

datatype endpoint =
    ServicesPage json int int
  | Details json
  | Snippet json pystr pystr
  | Vcl json pystr
  | GeneratedVcl json pystr

text \<open>
  What \<^verbatim>\<open>requests.get\<close> can do: fail without a response, or answer with a status
  code and a body that decodes as JSON or does not.
\<close>

datatype http_reply = NoReply | Reply int "json option"

text \<open>
  The remote side is a transition function on a state \<open>'w\<close> of its own, so that two
  requests to one endpoint may be answered differently. The run also records the
  endpoints it requested, in order.
\<close>

type_synonym 'w transport = "endpoint \<Rightarrow> 'w \<Rightarrow> http_reply \<times> 'w"

record 'w net =
  world :: 'w
  requested :: "endpoint list"

text \<open>
  \<^verbatim>\<open>make_api_request\<close>: \<^verbatim>\<open>raise_for_status\<close> raises for the codes from 400 to 599, and
  the handler returns \<^verbatim>\<open>None\<close> with the code of the response of the exception. A body
  that does not decode raises the \<^verbatim>\<open>JSONDecodeError\<close> of \<^verbatim>\<open>requests\<close>, a
  \<^verbatim>\<open>RequestException\<close> that carries no response. The messages printed are left out.
\<close>

definition make_api_request ::
  "'w transport \<Rightarrow> endpoint \<Rightarrow> 'w net \<Rightarrow> (json \<times> int option) \<times> 'w net" where
  "make_api_request http endpoint s =
     (case http endpoint (world s) of (reply, w') \<Rightarrow>
        let s' = \<lparr>world = w', requested = requested s @ [endpoint]\<rparr> in
        (case reply of
           NoReply \<Rightarrow> ((JNull, None), s')
         | Reply code body \<Rightarrow>
             if 400 \<le> code \<and> code < 600 then ((JNull, Some code), s')
             else (case body of
                     None \<Rightarrow> ((JNull, None), s')
                   | Some j \<Rightarrow> ((j, Some code), s'))))"

section \<open>Service enumeration\<close>

definition total_expected :: nat where
  "total_expected = 468"

text \<open>
  \<^verbatim>\<open>services.get("data", []) if isinstance(services, dict) else services\<close>
\<close>

fun page_data :: "json \<Rightarrow> json" where
  "page_data (JObj kvs) = dict_get kvs (ustr ''data'') (JArr [])"
| "page_data v = v"

text \<open>
  The \<^verbatim>\<open>while\<close> loop of \<^verbatim>\<open>get_services\<close>, from the accumulated list and the page
  number. \<^verbatim>\<open>extend\<close> raises on a payload that cannot be iterated.
\<close>

function get_services_loop ::
  "'w transport \<Rightarrow> json \<Rightarrow> json list \<Rightarrow> int \<Rightarrow> 'w net \<Rightarrow> (py_error + json list) \<times> 'w net" where
  "get_services_loop http customer_id all_services page s =
     (if length all_services < total_expected then
        (case make_api_request http (ServicesPage customer_id page 100) s of
           ((services, status_code), s') \<Rightarrow>
             if \<not> py_truthy services \<or> status_code \<noteq> Some 200 then (Inr all_services, s')
             else (case py_iter (page_data services) of
                     Inl e \<Rightarrow> (Inl e, s')
                   | Inr data \<Rightarrow>
                       if length data < 100 then (Inr (all_services @ data), s')
                       else get_services_loop http customer_id (all_services @ data) (page + 1) s'))
      else (Inr all_services, s))"
  by pat_completeness auto
termination
  by (relation "measure (\<lambda>(http, customer_id, all_services, page, s).
        total_expected - length all_services)") auto

declare get_services_loop.simps [simp del]

definition get_services ::
  "'w transport \<Rightarrow> json \<Rightarrow> 'w net \<Rightarrow> (py_error + json list) \<times> 'w net" where
  "get_services http customer_id s = get_services_loop http customer_id [] 1 s"

section \<open>Service details\<close>

record service_details =
  name :: json
  active_version :: pystr

text \<open>
  \<^verbatim>\<open>str(active_version.get("number", "None")) if isinstance(active_version, dict)
  else str(active_version or "None")\<close>
\<close>

fun version_number :: "(json \<Rightarrow> pystr) \<Rightarrow> json \<Rightarrow> pystr" where
  "version_number rp (JObj kvs) = py_str rp (dict_get kvs (ustr ''number'') (JStr (ustr ''None'')))"
| "version_number rp v = py_str rp (if py_truthy v then v else JStr (ustr ''None''))"

definition get_service_details ::
  "'w transport \<Rightarrow> (json \<Rightarrow> pystr) \<Rightarrow> json \<Rightarrow> 'w net \<Rightarrow> (py_error + service_details) \<times> 'w net" where
  "get_service_details http rp service_id s =
     (case make_api_request http (Details service_id) s of
        ((details, status_code), s') \<Rightarrow>
          if py_truthy details \<and> status_code = Some 200 then
            (case py_get details (ustr ''active_version'') (JObj []) of
               Inl e \<Rightarrow> (Inl e, s')
             | Inr av \<Rightarrow>
                 (case py_get details (ustr ''name'') (JStr (ustr ''Unnamed Service'')) of
                    Inl e \<Rightarrow> (Inl e, s')
                  | Inr nm \<Rightarrow> (Inr \<lparr>name = nm, active_version = version_number rp av\<rparr>, s')))
          else (Inr \<lparr>name = JStr (ustr ''Unnamed Service''), active_version = ustr ''Unknown''\<rparr>, s'))"

section \<open>Compliance scanner\<close>

definition present :: pystr where
  "present = [9989]"

definition absent :: pystr where
  "absent = [10060]"

definition snippet_name_default :: pystr where
  "snippet_name_default = ustr ''ngwaf_config_init''"

text \<open>\<^verbatim>\<open>f"Error: {response or 'Unknown'} (Status: {status_code})"\<close>\<close>

definition snippet_error :: "(json \<Rightarrow> pystr) \<Rightarrow> json \<Rightarrow> int option \<Rightarrow> pystr" where
  "snippet_error rp response status_code =
     ustr ''Error: '' @ py_str rp (if py_truthy response then response else JStr (ustr ''Unknown''))
       @ ustr '' (Status: '' @ str_status status_code @ ustr '')''"

definition check_snippet ::
  "'w transport \<Rightarrow> (json \<Rightarrow> pystr) \<Rightarrow> json \<Rightarrow> pystr \<Rightarrow> pystr \<Rightarrow> 'w net \<Rightarrow> pystr \<times> 'w net" where
  "check_snippet http rp service_id version snippet_name s =
     (case make_api_request http (Snippet service_id version snippet_name) s of
        ((response, status_code), s') \<Rightarrow>
          if status_code = Some 200 then (present, s')
          else if status_code = Some 404 then (absent, s')
          else (snippet_error rp response status_code, s'))"

text \<open>
  \<^verbatim>\<open>exact_match in content\<close>: a substring test on a string, membership in a list,
  a key test on a dict, and a \<^verbatim>\<open>TypeError\<close> on the other values.
\<close>

fun py_contains :: "pystr \<Rightarrow> json \<Rightarrow> py_error + bool" where
  "py_contains x (JStr s) = Inr (sublist x s)"
| "py_contains x (JArr vs) = Inr (JStr x \<in> set vs)"
| "py_contains x (JObj kvs) = Inr (x \<in> set (map fst kvs))"
| "py_contains x _ = Inl TypeError"

text \<open>\<^verbatim>\<open>re.search(pattern, content, re.IGNORECASE)\<close>, which accepts a string only.\<close>

fun py_re_search :: "regex \<Rightarrow> json \<Rightarrow> py_error + bool" where
  "py_re_search r (JStr s) = Inr (re_search r s)"
| "py_re_search r _ = Inl TypeError"

text \<open>The two tests the source applies to one content value, in its order.\<close>

definition directive_found :: "json \<Rightarrow> py_error + bool" where
  "directive_found content =
     (case py_contains exact_match content of
        Inl e \<Rightarrow> Inl e
      | Inr True \<Rightarrow> Inr True
      | Inr False \<Rightarrow> py_re_search pattern content)"

text \<open>The \<^verbatim>\<open>for vcl in vcl_data\<close> loop: \<open>Inr True\<close> is its \<^verbatim>\<open>return True\<close>.\<close>

fun scan_units :: "json list \<Rightarrow> py_error + bool" where
  "scan_units [] = Inr False"
| "scan_units (vcl # rest) =
     (case py_get vcl (ustr ''content'') (JStr []) of
        Inl e \<Rightarrow> Inl e
      | Inr content \<Rightarrow>
          (case directive_found content of
             Inl e \<Rightarrow> Inl e
           | Inr True \<Rightarrow> Inr True
           | Inr False \<Rightarrow> scan_units rest))"

text \<open>The first tier, on the answer to the listing request.\<close>

definition listing_tier :: "json \<Rightarrow> int option \<Rightarrow> py_error + bool" where
  "listing_tier vcl_data vcl_status =
     (if vcl_status = Some 200 then
        (case vcl_data of JArr units \<Rightarrow> scan_units units | _ \<Rightarrow> Inr False)
      else Inr False)"

text \<open>The second tier, on the answer to the request for the generated VCL.\<close>

definition generated_tier :: "json \<Rightarrow> int option \<Rightarrow> py_error + bool" where
  "generated_tier generated_vcl_data generated_vcl_status =
     (if generated_vcl_status = Some 200 then
        (case generated_vcl_data of
           JObj kvs \<Rightarrow> directive_found (dict_get kvs (ustr ''content'') (JStr []))
         | _ \<Rightarrow> Inr False)
      else Inr False)"

definition check_client_challenge ::
  "'w transport \<Rightarrow> json \<Rightarrow> pystr \<Rightarrow> 'w net \<Rightarrow> (py_error + bool) \<times> 'w net" where
  "check_client_challenge http service_id version s =
     (case make_api_request http (Vcl service_id version) s of
        ((vcl_data, vcl_status), s1) \<Rightarrow>
          (case listing_tier vcl_data vcl_status of
             Inl e \<Rightarrow> (Inl e, s1)
           | Inr True \<Rightarrow> (Inr True, s1)
           | Inr False \<Rightarrow>
               (case make_api_request http (GeneratedVcl service_id version) s1 of
                  ((generated_vcl_data, generated_vcl_status), s2) \<Rightarrow>
                    (generated_tier generated_vcl_data generated_vcl_status, s2))))"

text \<open>
  The same function with the two substring tests taken out, so that only the
  pattern decides: the function the specification compares the source with.
\<close>

fun scan_units_pattern_only :: "json list \<Rightarrow> py_error + bool" where
  "scan_units_pattern_only [] = Inr False"
| "scan_units_pattern_only (vcl # rest) =
     (case py_get vcl (ustr ''content'') (JStr []) of
        Inl e \<Rightarrow> Inl e
      | Inr content \<Rightarrow>
          (case py_re_search pattern content of
             Inl e \<Rightarrow> Inl e
           | Inr True \<Rightarrow> Inr True
           | Inr False \<Rightarrow> scan_units_pattern_only rest))"

definition listing_tier_pattern_only :: "json \<Rightarrow> int option \<Rightarrow> py_error + bool" where
  "listing_tier_pattern_only vcl_data vcl_status =
     (if vcl_status = Some 200 then
        (case vcl_data of JArr units \<Rightarrow> scan_units_pattern_only units | _ \<Rightarrow> Inr False)
      else Inr False)"

definition generated_tier_pattern_only :: "json \<Rightarrow> int option \<Rightarrow> py_error + bool" where
  "generated_tier_pattern_only generated_vcl_data generated_vcl_status =
     (if generated_vcl_status = Some 200 then
        (case generated_vcl_data of
           JObj kvs \<Rightarrow> py_re_search pattern (dict_get kvs (ustr ''content'') (JStr []))
         | _ \<Rightarrow> Inr False)
      else Inr False)"

definition check_client_challenge_pattern_only ::
  "'w transport \<Rightarrow> json \<Rightarrow> pystr \<Rightarrow> 'w net \<Rightarrow> (py_error + bool) \<times> 'w net" where
  "check_client_challenge_pattern_only http service_id version s =
     (case make_api_request http (Vcl service_id version) s of
        ((vcl_data, vcl_status), s1) \<Rightarrow>
          (case listing_tier_pattern_only vcl_data vcl_status of
             Inl e \<Rightarrow> (Inl e, s1)
           | Inr True \<Rightarrow> (Inr True, s1)
           | Inr False \<Rightarrow>
               (case make_api_request http (GeneratedVcl service_id version) s1 of
                  ((generated_vcl_data, generated_vcl_status), s2) \<Rightarrow>
                    (generated_tier_pattern_only generated_vcl_data generated_vcl_status, s2))))"

section \<open>Audit orchestrator\<close>

text \<open>One line of the report, as the values handed to \<^verbatim>\<open>writer.writerow\<close>.\<close>

record audit_row =
  col_service_name :: json
  col_service_id :: json
  col_active_version :: pystr
  col_waf_status :: pystr
  col_client_challenge_enabled :: pystr

text \<open>
  \<^verbatim>\<open>active_version and active_version != "None" and active_version != "Unknown"\<close>
\<close>

definition has_active_version :: "pystr \<Rightarrow> bool" where
  "has_active_version v = (v \<noteq> [] \<and> v \<noteq> ustr ''None'' \<and> v \<noteq> ustr ''Unknown'')"

text \<open>
  The body of \<^verbatim>\<open>for service in services\<close>: \<open>None\<close> is the \<^verbatim>\<open>continue\<close> of a service
  with no identifier, \<open>Some row\<close> the row written.
\<close>

definition process_service ::
  "'w transport \<Rightarrow> (json \<Rightarrow> pystr) \<Rightarrow> json \<Rightarrow> 'w net \<Rightarrow> (py_error + audit_row option) \<times> 'w net" where
  "process_service http rp service s =
     (case py_get service (ustr ''id'') JNull of
        Inl e \<Rightarrow> (Inl e, s)
      | Inr service_id \<Rightarrow>
          if \<not> py_truthy service_id then (Inr None, s)
          else
            (case get_service_details http rp service_id s of
               (Inl e, s1) \<Rightarrow> (Inl e, s1)
             | (Inr details, s1) \<Rightarrow>
                 if has_active_version (active_version details) then
                   (case check_snippet http rp service_id (active_version details)
                           snippet_name_default s1 of
                      (waf_status, s2) \<Rightarrow>
                        (case check_client_challenge http service_id (active_version details) s2 of
                           (Inl e, s3) \<Rightarrow> (Inl e, s3)
                         | (Inr client_challenge_enabled, s3) \<Rightarrow>
                             (Inr (Some \<lparr>col_service_name = name details,
                                         col_service_id = service_id,
                                         col_active_version = active_version details,
                                         col_waf_status = waf_status,
                                         col_client_challenge_enabled =
                                           py_str rp (JBool client_challenge_enabled)\<rparr>), s3)))
                 else
                   (Inr (Some \<lparr>col_service_name = name details,
                               col_service_id = service_id,
                               col_active_version = active_version details,
                               col_waf_status = ustr ''No active version'',
                               col_client_challenge_enabled = py_str rp (JBool False)\<rparr>), s1)))"

text \<open>The rows written to one file, after its header.\<close>

fun write_rows ::
  "'w transport \<Rightarrow> (json \<Rightarrow> pystr) \<Rightarrow> json list \<Rightarrow> 'w net \<Rightarrow> (py_error + audit_row list) \<times> 'w net" where
  "write_rows http rp [] s = (Inr [], s)"
| "write_rows http rp (service # rest) s =
     (case process_service http rp service s of
        (Inl e, s1) \<Rightarrow> (Inl e, s1)
      | (Inr r, s1) \<Rightarrow>
          (case write_rows http rp rest s1 of
             (Inl e, s2) \<Rightarrow> (Inl e, s2)
           | (Inr rows, s2) \<Rightarrow> (Inr (case r of None \<Rightarrow> rows | Some row \<Rightarrow> row # rows), s2)))"

text \<open>
  \<^verbatim>\<open>main\<close>, after the configuration is loaded: \<open>None\<close> when no service was found and
  no file is written, otherwise the rows of the time-stamped file and of the file
  with the fixed name. The services are processed once for each file.
\<close>

definition main ::
  "'w transport \<Rightarrow> (json \<Rightarrow> pystr) \<Rightarrow> json \<Rightarrow> 'w net \<Rightarrow>
     (py_error + (audit_row list \<times> audit_row list) option) \<times> 'w net" where
  "main http rp customer_id s =
     (case get_services http customer_id s of
        (Inl e, s1) \<Rightarrow> (Inl e, s1)
      | (Inr services, s1) \<Rightarrow>
          if services = [] then (Inr None, s1)
          else
            (case write_rows http rp services s1 of
               (Inl e, s2) \<Rightarrow> (Inl e, s2)
             | (Inr report, s2) \<Rightarrow>
                 (case write_rows http rp services s2 of
                    (Inl e, s3) \<Rightarrow> (Inl e, s3)
                  | (Inr fixed_report, s3) \<Rightarrow> (Inr (Some (report, fixed_report)), s3))))"

section \<open>Notions used to state the properties\<close>

text \<open>
  The directive written loosely: its four words in any ASCII casing, separated by
  non-empty runs of whitespace, with no terminator.
\<close>

inductive directive_variant :: "pystr \<Rightarrow> bool" where
  "map ascii_lower w1 = ustr ''pragma'' \<Longrightarrow>
   map ascii_lower w2 = ustr ''optional_param'' \<Longrightarrow>
   map ascii_lower w3 = ustr ''client_challenge_enabled'' \<Longrightarrow>
   map ascii_lower w4 = ustr ''true'' \<Longrightarrow>
   g1 \<noteq> [] \<Longrightarrow> list_all py_isspace g1 \<Longrightarrow>
   g2 \<noteq> [] \<Longrightarrow> list_all py_isspace g2 \<Longrightarrow>
   g3 \<noteq> [] \<Longrightarrow> list_all py_isspace g3 \<Longrightarrow>
   directive_variant (w1 @ g1 @ w2 @ g2 @ w3 @ g3 @ w4)"

definition carries_directive :: "pystr \<Rightarrow> bool" where
  "carries_directive content =
     (sublist exact_match content \<or> (\<exists>d. directive_variant d \<and> sublist d content))"

text \<open>
  Content that is not a list or a dict: the text the API serves, and the scalars on
  which both tests of the source raise.
\<close>

fun not_container :: "json \<Rightarrow> bool" where
  "not_container (JArr vs) = False"
| "not_container (JObj kvs) = False"
| "not_container v = True"

definition unit_content_plain :: "json \<Rightarrow> bool" where
  "unit_content_plain u =
     (case u of JObj kvs \<Rightarrow> not_container (dict_get kvs (ustr ''content'') (JStr [])) | _ \<Rightarrow> True)"

definition payload_plain :: "json \<Rightarrow> bool" where
  "payload_plain j =
     (case j of JArr units \<Rightarrow> list_all unit_content_plain units | _ \<Rightarrow> unit_content_plain j)"

definition reply_plain :: "http_reply \<Rightarrow> bool" where
  "reply_plain r = (case r of Reply code (Some j) \<Rightarrow> payload_plain j | _ \<Rightarrow> True)"

text \<open>A service that carries an identifier \<^verbatim>\<open>main\<close> accepts.\<close>

definition has_usable_id :: "json \<Rightarrow> bool" where
  "has_usable_id service =
     (case service of JObj kvs \<Rightarrow> py_truthy (dict_get kvs (ustr ''id'') JNull) | _ \<Rightarrow> False)"

text \<open>A lookup that fails: no response, a status other than 200, or no decodable body.\<close>

definition lookup_fails :: "http_reply \<Rightarrow> bool" where
  "lookup_fails r = (case r of NoReply \<Rightarrow> True | Reply code body \<Rightarrow> code \<noteq> 200 \<or> body = None)"

section \<open>Sample runs\<close>

text \<open>A remote side that never answers.\<close>

definition silent_http :: "unit transport" where
  "silent_http endpoint w = (NoReply, w)"

definition start :: "unit net" where
  "start = \<lparr>world = (), requested = []\<rparr>"

definition no_repr :: "json \<Rightarrow> pystr" where
  "no_repr v = []"

text \<open>
  A version whose named units do not carry the directive and whose generated VCL
  carries it with irregular spacing and casing.
\<close>

definition loose_text :: pystr where
  "loose_text = ustr ''sub vcl_recv { '' @
     (ustr ''PRAGMA'' @ ustr ''  '' @ ustr ''optional_param'' @ ustr '' '' @
      ustr ''client_challenge_enabled'' @ ustr ''   '' @ ustr ''TRUE'') @ ustr '' }''"

definition blob_http :: "unit transport" where
  "blob_http endpoint w =
     (case endpoint of
        Vcl service_id version \<Rightarrow>
          (Reply 200 (Some (JArr [JObj [(ustr ''name'', JStr (ustr ''main'')),
                                        (ustr ''content'', JStr (ustr ''sub vcl_recv { }''))]])), w)
      | GeneratedVcl service_id version \<Rightarrow>
          (Reply 200 (Some (JObj [(ustr ''content'', JStr loose_text)])), w)
      | _ \<Rightarrow> (Reply 404 None, w))"

text \<open>A version with one named unit, which contains the literal directive.\<close>

definition exact_http :: "unit transport" where
  "exact_http endpoint w =
     (case endpoint of
        Vcl service_id version \<Rightarrow>
          (Reply 200 (Some (JArr [JObj [(ustr ''name'', JStr (ustr ''main'')),
                                        (ustr ''content'', JStr (ustr ''sub vcl_recv { '' @ exact_match @ ustr '' }''))]])), w)
      | _ \<Rightarrow> (Reply 404 None, w))"

text \<open>A remote side with one answer to everything.\<close>

definition const_http :: "http_reply \<Rightarrow> unit transport" where
  "const_http reply endpoint w = (reply, w)"

definition one_service :: json where
  "one_service = JObj [(ustr ''id'', JStr (ustr ''svc1''))]"

text \<open>A listing whose first page is full and whose second page fails.\<close>

definition paged_http :: "unit transport" where
  "paged_http endpoint w =
     (case endpoint of
        ServicesPage customer_id page page_size \<Rightarrow>
          if page = 1 then
            (Reply 200 (Some (JObj [(ustr ''data'', JArr (replicate 100 one_service))])), w)
          else (Reply 503 None, w)
      | _ \<Rightarrow> (NoReply, w))"

text \<open>A listing of three services on one page.\<close>

definition short_http :: "unit transport" where
  "short_http endpoint w =
     (case endpoint of
        ServicesPage customer_id page page_size \<Rightarrow>
          (Reply 200 (Some (JArr [one_service, one_service, one_service])), w)
      | _ \<Rightarrow> (NoReply, w))"

text \<open>A service whose metadata carries the bare number 0 as active version.\<close>

definition bare_zero_http :: "unit transport" where
  "bare_zero_http endpoint w =
     (case endpoint of
        Details service_id \<Rightarrow>
          (Reply 200 (Some (JObj [(ustr ''name'', JStr (ustr ''www'')),
                                  (ustr ''active_version'', JInt 0)])), w)
      | _ \<Rightarrow> (NoReply, w))"

text \<open>
  A service with active version 3 whose snippet exists and whose first named unit
  contains the literal directive.
\<close>

definition audit_http :: "unit transport" where
  "audit_http endpoint w =
     (case endpoint of
        Details service_id \<Rightarrow>
          (Reply 200 (Some (JObj [(ustr ''name'', JStr (ustr ''www'')),
                                  (ustr ''active_version'', JObj [(ustr ''number'', JInt 3)])])), w)
      | Snippet service_id version snippet_name \<Rightarrow>
          (Reply 200 (Some (JObj [(ustr ''name'', JStr snippet_name)])), w)
      | Vcl service_id version \<Rightarrow>
          (Reply 200 (Some (JArr [JObj [(ustr ''name'', JStr (ustr ''main'')),
                                        (ustr ''content'', JStr exact_match)]])), w)
      | _ \<Rightarrow> (NoReply, w))"

text \<open>Three enumerated services: one with an identifier, one without, one with an empty one.\<close>

definition sample_services :: "json list" where
  "sample_services =
     [one_service,
      JObj [(ustr ''name'', JStr (ustr ''no id''))],
      JObj [(ustr ''id'', JStr [])]]"

section \<open>Facts about the pattern\<close>

lemma ustr_eq_iff [simp]: "ustr a = ustr b \<longleftrightarrow> a = b"
  unfolding ustr_def by (rule inj_map_eq_map) (simp add: inj_on_def)

lemma ustr_empty_iff [simp]: "ustr a = [] \<longleftrightarrow> a = []" "[] = ustr a \<longleftrightarrow> a = []"
  by (auto simp: ustr_def)


lemma ascii_lower_lit: "ascii_lower x = p \<Longrightarrow> lit_ignorecase p x"
  by (auto simp: lit_ignorecase_def ascii_lower_def ascii_letter_def Let_def split: if_splits)

lemma match_lits:
  "map ascii_lower u = ustr w \<Longrightarrow> match_here r t \<Longrightarrow> match_here (lits w @ r) (u @ t)"
proof (induction w arbitrary: u)
  case Nil
  then show ?case by (simp add: lits_def ustr_def)
next
  case (Cons c w)
  from Cons.prems(1) obtain x u' where u: "u = x # u'"
    and x: "ascii_lower x = of_char c" and u': "map ascii_lower u' = ustr w"
    by (cases u) (auto simp: ustr_def)
  have "match_here (lits w @ r) (u' @ t)"
    using Cons.IH [OF u' Cons.prems(2)] .
  with x show ?case
    by (simp add: u lits_def ascii_lower_lit)
qed

lemma match_star_skip: "match_here r t \<Longrightarrow> match_here ((a, Star) # r) t"
  by (cases t) simp_all

lemma match_opt_skip: "match_here r t \<Longrightarrow> match_here ((a, Opt) # r) t"
  by (cases t) simp_all

lemma match_space_star:
  "list_all py_isspace w \<Longrightarrow> match_here r t \<Longrightarrow> match_here ((WhiteSpace, Star) # r) (w @ t)"
  by (induction w) (simp_all add: match_star_skip)

lemma match_space_plus:
  "w \<noteq> [] \<Longrightarrow> list_all py_isspace w \<Longrightarrow> match_here r t \<Longrightarrow>
   match_here ((WhiteSpace, Plus) # r) (w @ t)"
  by (cases w) (simp_all add: match_space_star)

lemma match_pattern_tail: "match_here [(WhiteSpace, Star), (Lit 59, Opt)] t"
  by (simp add: match_star_skip match_opt_skip)

lemma re_search_here: "match_here r t \<Longrightarrow> re_search r t"
  by (cases t) simp_all

lemma re_search_append: "match_here r t \<Longrightarrow> re_search r (p @ t)"
  by (induction p) (simp_all add: re_search_here)

text \<open>
  The directive in any ASCII casing, its four words separated by non-empty runs of
  whitespace, matches the pattern wherever it stands in a text.
\<close>

lemma match_pattern_variant:
  assumes "map ascii_lower w1 = ustr ''pragma''"
    and "map ascii_lower w2 = ustr ''optional_param''"
    and "map ascii_lower w3 = ustr ''client_challenge_enabled''"
    and "map ascii_lower w4 = ustr ''true''"
    and "g1 \<noteq> []" "list_all py_isspace g1"
    and "g2 \<noteq> []" "list_all py_isspace g2"
    and "g3 \<noteq> []" "list_all py_isspace g3"
  shows "match_here pattern (w1 @ g1 @ w2 @ g2 @ w3 @ g3 @ w4 @ t)"
proof -
  have 4: "match_here (lits ''true'' @ [(WhiteSpace, Star), (Lit 59, Opt)]) (w4 @ t)"
    using assms(4) by (rule match_lits) (rule match_pattern_tail)
  have 3: "match_here (lits ''client_challenge_enabled'' @ (WhiteSpace, Plus) #
             lits ''true'' @ [(WhiteSpace, Star), (Lit 59, Opt)]) (w3 @ g3 @ w4 @ t)"
    using assms(3) by (rule match_lits) (rule match_space_plus [OF assms(9,10) 4])
  have 2: "match_here (lits ''optional_param'' @ (WhiteSpace, Plus) #
             lits ''client_challenge_enabled'' @ (WhiteSpace, Plus) #
             lits ''true'' @ [(WhiteSpace, Star), (Lit 59, Opt)]) (w2 @ g2 @ w3 @ g3 @ w4 @ t)"
    using assms(2) by (rule match_lits) (rule match_space_plus [OF assms(7,8) 3])
  have "match_here (lits ''pragma'' @ (WhiteSpace, Plus) #
             lits ''optional_param'' @ (WhiteSpace, Plus) #
             lits ''client_challenge_enabled'' @ (WhiteSpace, Plus) #
             lits ''true'' @ [(WhiteSpace, Star), (Lit 59, Opt)])
          (w1 @ g1 @ w2 @ g2 @ w3 @ g3 @ w4 @ t)"
    using assms(1) by (rule match_lits) (rule match_space_plus [OF assms(5,6) 2])
  then show ?thesis
    by (simp add: pattern_def)
qed

lemma search_pattern_variant:
  assumes "map ascii_lower w1 = ustr ''pragma''"
    and "map ascii_lower w2 = ustr ''optional_param''"
    and "map ascii_lower w3 = ustr ''client_challenge_enabled''"
    and "map ascii_lower w4 = ustr ''true''"
    and "g1 \<noteq> []" "list_all py_isspace g1"
    and "g2 \<noteq> []" "list_all py_isspace g2"
    and "g3 \<noteq> []" "list_all py_isspace g3"
    and "sublist (w1 @ g1 @ w2 @ g2 @ w3 @ g3 @ w4) content"
  shows "re_search pattern content"
proof -
  from assms(11) obtain p t where "content = p @ (w1 @ g1 @ w2 @ g2 @ w3 @ g3 @ w4) @ t"
    by (auto simp: sublist_def)
  then have c: "content = p @ (w1 @ g1 @ w2 @ g2 @ w3 @ g3 @ w4 @ t)"
    by simp
  show ?thesis
    unfolding c by (rule re_search_append) (rule match_pattern_variant [OF assms(1-10)])
qed

lemma exact_match_words:
  "exact_match = ustr ''pragma'' @ [32] @ ustr ''optional_param'' @ [32] @
     ustr ''client_challenge_enabled'' @ [32] @ ustr ''true'' @ [59]"
  by (simp add: exact_match_def ustr_def)

lemma ascii_lower_word:
  "map ascii_lower (ustr ''pragma'') = ustr ''pragma''"
  "map ascii_lower (ustr ''optional_param'') = ustr ''optional_param''"
  "map ascii_lower (ustr ''client_challenge_enabled'') = ustr ''client_challenge_enabled''"
  "map ascii_lower (ustr ''true'') = ustr ''true''"
  by (simp_all add: ustr_def ascii_lower_def)

lemma exact_match_search:
  assumes "sublist exact_match content"
  shows "re_search pattern content"
proof -
  from assms obtain p t where "content = p @ exact_match @ t"
    by (auto simp: sublist_def)
  then have c: "content = p @ (ustr ''pragma'' @ [32] @ ustr ''optional_param'' @ [32] @
      ustr ''client_challenge_enabled'' @ [32] @ ustr ''true'' @ (59 # t))"
    by (simp add: exact_match_words)
  show ?thesis
    unfolding c
    by (rule re_search_append, rule match_pattern_variant)
       (simp_all add: ascii_lower_word py_isspace_def)
qed

lemma directive_variant_search: "directive_variant d \<Longrightarrow> sublist d content \<Longrightarrow> re_search pattern content"
  by (erule directive_variant.cases) (auto intro: search_pattern_variant)

lemma carries_directive_search: "carries_directive content \<Longrightarrow> re_search pattern content"
  unfolding carries_directive_def
  by (auto simp: exact_match_search directive_variant_search)

section \<open>Facts about the scanner\<close>

lemma make_api_request_requested:
  "make_api_request http ep s = (r, s') \<Longrightarrow> requested s' = requested s @ [ep]"
  by (auto simp: make_api_request_def Let_def
           split: prod.splits http_reply.splits if_splits option.splits)

lemma directive_found_text:
  "directive_found (JStr content) = Inr (sublist exact_match content \<or> re_search pattern content)"
  by (simp add: directive_found_def split: bool.splits)

lemma directive_found_carries:
  "carries_directive content \<Longrightarrow> directive_found (JStr content) = Inr True"
  by (simp add: directive_found_text carries_directive_search)

lemma scan_units_reaches:
  "\<not> isl (scan_units before) \<Longrightarrow> py_get unit (ustr ''content'') (JStr []) = Inr c \<Longrightarrow>
   directive_found c = Inr True \<Longrightarrow> scan_units (before @ unit # after) = Inr True"
  by (induction before) (auto split: sum.splits bool.splits)

text \<open>
  C1. When the content of a named unit of the version, or of its generated VCL,
  contains the literal directive, or contains the directive with its words in any
  casing, separated by arbitrary non-empty runs of whitespace and with no
  terminator, \<open>check_client_challenge\<close> returns true. The unit is reached when the
  units listed before it raise no exception, and the generated VCL is reached when
  the scan of the listing raises none.
\<close>

theorem check_client_challenge_directive:
  assumes "make_api_request http (Vcl service_id version) s = ((vcl_data, vcl_status), s1)"
    and "make_api_request http (GeneratedVcl service_id version) s1 = ((gen_data, gen_status), s2)"
    and "carries_directive content"
    and "map_of kvs (ustr ''content'') = Some (JStr content)"
    and "(vcl_status = Some 200 \<and> vcl_data = JArr (before @ JObj kvs # after)
            \<and> \<not> isl (scan_units before))
         \<or> (\<not> isl (listing_tier vcl_data vcl_status)
            \<and> gen_status = Some 200 \<and> gen_data = JObj kvs)"
  shows "fst (check_client_challenge http service_id version s) = Inr True"
proof -
  have found: "directive_found (dict_get kvs (ustr ''content'') (JStr [])) = Inr True"
    using assms(3,4) by (simp add: dict_get_def directive_found_carries)
  from assms(5) show ?thesis
  proof
    assume a: "vcl_status = Some 200 \<and> vcl_data = JArr (before @ JObj kvs # after)
            \<and> \<not> isl (scan_units before)"
    then have "scan_units (before @ JObj kvs # after) = Inr True"
      using found by (intro scan_units_reaches) simp_all
    with a have "listing_tier vcl_data vcl_status = Inr True"
      by (simp add: listing_tier_def)
    then show ?thesis
      by (simp add: check_client_challenge_def assms(1))
  next
    assume b: "\<not> isl (listing_tier vcl_data vcl_status)
            \<and> gen_status = Some 200 \<and> gen_data = JObj kvs"
    then have g: "generated_tier gen_data gen_status = Inr True"
      using found by (simp add: generated_tier_def)
    from b obtain t where t: "listing_tier vcl_data vcl_status = Inr t"
      by (cases "listing_tier vcl_data vcl_status") auto
    show ?thesis
      by (cases t) (simp_all add: check_client_challenge_def assms(1,2) t g)
  qed
qed

theorem check_client_challenge_directive_witness:
  "carries_directive loose_text \<and>
   fst (check_client_challenge blob_http (JStr (ustr ''svc1'')) (ustr ''3'') start) = Inr True"
proof -
  let ?d = "ustr ''PRAGMA'' @ ustr ''  '' @ ustr ''optional_param'' @ ustr '' '' @
      ustr ''client_challenge_enabled'' @ ustr ''   '' @ ustr ''TRUE''"
  let ?sid = "JStr (ustr ''svc1'')"
  let ?listing = "JArr [JObj [(ustr ''name'', JStr (ustr ''main'')),
                        (ustr ''content'', JStr (ustr ''sub vcl_recv { }''))]]"
  let ?kvs = "[(ustr ''content'', JStr loose_text)]"
  have "directive_variant ?d"
    by (rule directive_variant.intros) (simp_all add: ustr_def ascii_lower_def py_isspace_def)
  moreover have "sublist ?d loose_text"
    unfolding loose_text_def by (rule sublist_appendI)
  ultimately have c: "carries_directive loose_text"
    unfolding carries_directive_def by blast
  have h1: "make_api_request blob_http (Vcl ?sid (ustr ''3'')) start =
      ((?listing, Some 200), \<lparr>world = (), requested = [Vcl ?sid (ustr ''3'')]\<rparr>)"
    by (simp add: make_api_request_def blob_http_def start_def)
  have h2: "make_api_request blob_http (GeneratedVcl ?sid (ustr ''3''))
        \<lparr>world = (), requested = [Vcl ?sid (ustr ''3'')]\<rparr> =
      ((JObj ?kvs, Some 200),
       \<lparr>world = (), requested = [Vcl ?sid (ustr ''3''), GeneratedVcl ?sid (ustr ''3'')]\<rparr>)"
    by (simp add: make_api_request_def blob_http_def)
  have h4: "map_of ?kvs (ustr ''content'') = Some (JStr loose_text)"
    by simp
  have h5: "\<not> isl (listing_tier ?listing (Some 200))"
    by (simp add: listing_tier_def dict_get_def directive_found_text exact_match_def ustr_def
          sublist_code pattern_def lits_def lit_ignorecase_def ascii_letter_def ascii_lower_def
          py_isspace_def)
  show ?thesis
    using c check_client_challenge_directive [OF h1 h2 c h4, of "[]" "[]"] h5 by simp
qed

lemma directive_found_plain: "not_container c \<Longrightarrow> directive_found c = py_re_search pattern c"
  by (cases c) (auto simp: directive_found_def exact_match_search split: bool.splits)

lemma scan_units_plain:
  "list_all unit_content_plain units \<Longrightarrow> scan_units units = scan_units_pattern_only units"
proof (induction units)
  case Nil
  show ?case by simp
next
  case (Cons u units)
  then show ?case
    by (cases u)
       (simp_all add: unit_content_plain_def directive_found_plain split: sum.splits bool.splits)
qed

lemma listing_tier_plain:
  "payload_plain vcl_data \<Longrightarrow> listing_tier vcl_data st = listing_tier_pattern_only vcl_data st"
  by (cases vcl_data)
     (simp_all add: listing_tier_def listing_tier_pattern_only_def payload_plain_def scan_units_plain)

lemma generated_tier_plain:
  "payload_plain g \<Longrightarrow> generated_tier g st = generated_tier_pattern_only g st"
  by (cases g)
     (simp_all add: generated_tier_def generated_tier_pattern_only_def payload_plain_def
        unit_content_plain_def directive_found_plain)

lemma make_api_request_plain:
  assumes "\<forall>endpoint w. reply_plain (fst (http endpoint w))"
    and "make_api_request http ep s = ((j, st), s')"
  shows "payload_plain j"
proof -
  obtain r w' where h: "http ep (world s) = (r, w')"
    by (cases "http ep (world s)")
  with assms(1) have "reply_plain r"
    by (metis fst_conv)
  with assms(2) h show ?thesis
    by (auto simp: make_api_request_def Let_def reply_plain_def payload_plain_def
          unit_content_plain_def split: http_reply.splits if_splits option.splits)
qed

text \<open>
  C9. The substring test never changes the verdict. A content string that contains
  the literal directive matches the pattern; and on every remote side whose content
  values are not lists or dicts, \<open>check_client_challenge\<close> is the same function as its
  variant that applies the pattern test alone.
\<close>

theorem exact_check_redundant:
  "(\<forall>content. sublist exact_match content \<longrightarrow> re_search pattern content) \<and>
   ((\<forall>endpoint w. reply_plain (fst (http endpoint w))) \<longrightarrow>
      check_client_challenge http = check_client_challenge_pattern_only http)"
proof (intro conjI allI impI)
  fix content
  assume "sublist exact_match content"
  then show "re_search pattern content"
    by (rule exact_match_search)
next
  assume plain: "\<forall>endpoint w. reply_plain (fst (http endpoint w))"
  show "check_client_challenge http = check_client_challenge_pattern_only http"
  proof (intro ext)
    fix service_id version and s :: "'a net"
    obtain vd vs s1 where l: "make_api_request http (Vcl service_id version) s = ((vd, vs), s1)"
      by (metis surj_pair)
    obtain gd gs s2 where g: "make_api_request http (GeneratedVcl service_id version) s1 = ((gd, gs), s2)"
      by (metis surj_pair)
    have "listing_tier vd vs = listing_tier_pattern_only vd vs"
      using make_api_request_plain [OF plain l] by (rule listing_tier_plain)
    moreover have "generated_tier gd gs = generated_tier_pattern_only gd gs"
      using make_api_request_plain [OF plain g] by (rule generated_tier_plain)
    ultimately show "check_client_challenge http service_id version s =
        check_client_challenge_pattern_only http service_id version s"
      by (simp add: check_client_challenge_def check_client_challenge_pattern_only_def l g
            split: sum.splits bool.splits)
  qed
qed

theorem exact_check_redundant_witness:
  "(\<forall>endpoint w. reply_plain (fst (exact_http endpoint w))) \<and>
   check_client_challenge exact_http (JStr (ustr ''svc1'')) (ustr ''3'') start =
     (Inr True, \<lparr>world = (), requested = [Vcl (JStr (ustr ''svc1'')) (ustr ''3'')]\<rparr>) \<and>
   check_client_challenge_pattern_only exact_http (JStr (ustr ''svc1'')) (ustr ''3'') start =
     (Inr True, \<lparr>world = (), requested = [Vcl (JStr (ustr ''svc1'')) (ustr ''3'')]\<rparr>)"
proof -
  have p: "\<forall>endpoint w. reply_plain (fst (exact_http endpoint w))"
    by (simp add: exact_http_def reply_plain_def payload_plain_def unit_content_plain_def
          dict_get_def ustr_def split: endpoint.splits)
  have e: "sublist exact_match (ustr ''sub vcl_recv { '' @ exact_match @ ustr '' }'')"
    by (rule sublist_appendI)
  have c: "check_client_challenge exact_http (JStr (ustr ''svc1'')) (ustr ''3'') start =
     (Inr True, \<lparr>world = (), requested = [Vcl (JStr (ustr ''svc1'')) (ustr ''3'')]\<rparr>)"
    using e by (simp add: check_client_challenge_def make_api_request_def exact_http_def start_def
          listing_tier_def dict_get_def directive_found_text)
  from exact_check_redundant [of exact_http] p
  have "check_client_challenge exact_http = check_client_challenge_pattern_only exact_http"
    by blast
  with p c show ?thesis
    by simp
qed

lemma snippet_error_not_marker:
  "snippet_error rp response status_code \<noteq> present"
  "snippet_error rp response status_code \<noteq> absent"
  by (simp_all add: snippet_error_def present_def absent_def ustr_def)

lemma snippet_error_status:
  "sublist (str_status status_code) (snippet_error rp response status_code)"
  unfolding snippet_error_def
  by (metis append.assoc sublist_appendI)

text \<open>
  C3. \<open>check_snippet\<close> has three outcomes: the present marker exactly when the
  status is 200, the absent marker exactly when it is 404, and for every other
  status, and for a failure with no status, an error text that contains the status
  as Python prints it, distinct from both markers.
\<close>

theorem check_snippet_three_way:
  assumes "make_api_request http (Snippet service_id version snippet_name) s =
             ((response, status_code), s1)"
  shows "(fst (check_snippet http rp service_id version snippet_name s) = present
            \<longleftrightarrow> status_code = Some 200)
       \<and> (fst (check_snippet http rp service_id version snippet_name s) = absent
            \<longleftrightarrow> status_code = Some 404)
       \<and> (status_code \<noteq> Some 200 \<and> status_code \<noteq> Some 404 \<longrightarrow>
            fst (check_snippet http rp service_id version snippet_name s) =
              ustr ''Error: '' @
              py_str rp (if py_truthy response then response else JStr (ustr ''Unknown'')) @
              ustr '' (Status: '' @ str_status status_code @ ustr '')''
            \<and> sublist (str_status status_code)
                 (fst (check_snippet http rp service_id version snippet_name s)))"
proof -
  have pa: "present \<noteq> absent"
    by (simp add: present_def absent_def)
  show ?thesis
    using snippet_error_not_marker [of rp response status_code]
      snippet_error_status [of status_code rp response] pa
    by (auto simp: check_snippet_def assms snippet_error_def)
qed

theorem check_snippet_three_way_witness:
  "fst (check_snippet (const_http (Reply 503 None)) no_repr (JStr (ustr ''svc1'')) (ustr ''3'')
          snippet_name_default start) = ustr ''Error: Unknown (Status: 503)''
   \<and> sublist (ustr ''503'')
        (fst (check_snippet (const_http (Reply 503 None)) no_repr (JStr (ustr ''svc1'')) (ustr ''3'')
          snippet_name_default start))"
proof -
  have h: "make_api_request (const_http (Reply 503 None))
      (Snippet (JStr (ustr ''svc1'')) (ustr ''3'') snippet_name_default) start =
      ((JNull, Some 503), \<lparr>world = (),
        requested = [Snippet (JStr (ustr ''svc1'')) (ustr ''3'') snippet_name_default]\<rparr>)"
    by (simp add: make_api_request_def const_http_def start_def)
  have d: "str_status (Some 503) = ustr ''503''"
    by (simp add: str_status_def str_int_def digits_of.simps ustr_def)
  have n: "Some 503 \<noteq> Some (200::int) \<and> Some 503 \<noteq> Some (404::int)"
    by simp
  note both = check_snippet_three_way [OF h, of no_repr, THEN conjunct2, THEN conjunct2,
      THEN mp, OF n]
  from both [THEN conjunct1]
  have r: "fst (check_snippet (const_http (Reply 503 None)) no_repr (JStr (ustr ''svc1''))
          (ustr ''3'') snippet_name_default start) =
      ustr ''Error: '' @ ustr ''Unknown'' @ ustr '' (Status: '' @ str_status (Some 503) @ ustr '')''"
    by simp
  note sb = both [THEN conjunct2]
  have "ustr ''Error: '' @ ustr ''Unknown'' @ ustr '' (Status: '' @ ustr ''503'' @ ustr '')'' =
      ustr ''Error: Unknown (Status: 503)''"
    by (simp add: ustr_def)
  with r sb show ?thesis
    by (simp add: d)
qed

text \<open>
  C6. When the request for a page fails, by a transport failure or with a status
  other than 200, the loop of \<open>get_services\<close> requests nothing further and returns
  the services accumulated from the pages before, as a result and not as an error.
\<close>

theorem get_services_stops_on_failure:
  assumes "length all_services < total_expected"
    and "make_api_request http (ServicesPage customer_id page 100) s =
           ((services, status_code), s1)"
    and "status_code \<noteq> Some 200"
  shows "get_services_loop http customer_id all_services page s = (Inr all_services, s1)
       \<and> requested s1 = requested s @ [ServicesPage customer_id page 100]"
  using assms make_api_request_requested [OF assms(2)]
  by (subst get_services_loop.simps) simp

theorem get_services_stops_on_failure_witness:
  "get_services paged_http (JStr (ustr ''cust'')) start =
     (Inr (replicate 100 one_service),
      \<lparr>world = (), requested = [ServicesPage (JStr (ustr ''cust'')) 1 100,
                                ServicesPage (JStr (ustr ''cust'')) 2 100]\<rparr>)"
proof -
  let ?s1 = "\<lparr>world = (), requested = [ServicesPage (JStr (ustr ''cust'')) 1 100]\<rparr>"
  let ?s2 = "\<lparr>world = (), requested = [ServicesPage (JStr (ustr ''cust'')) 1 100,
                                ServicesPage (JStr (ustr ''cust'')) 2 100]\<rparr>"
  have h1: "make_api_request paged_http (ServicesPage (JStr (ustr ''cust'')) 1 100) start =
      ((JObj [(ustr ''data'', JArr (replicate 100 one_service))], Some 200), ?s1)"
    by (simp add: make_api_request_def paged_http_def start_def)
  have h2: "make_api_request paged_http (ServicesPage (JStr (ustr ''cust'')) 2 100) ?s1 =
      ((JNull, Some 503), ?s2)"
    by (simp add: make_api_request_def paged_http_def)
  have l: "length (replicate 100 one_service) < total_expected"
    by (simp add: total_expected_def)
  have "get_services_loop paged_http (JStr (ustr ''cust'')) (replicate 100 one_service) 2 ?s1 =
      (Inr (replicate 100 one_service), ?s2)"
    using get_services_stops_on_failure [OF l h2] by simp
  then show ?thesis
    unfolding get_services_def
    by (subst get_services_loop.simps) (simp add: h1 total_expected_def dict_get_def)
qed

text \<open>
  C7. A page answered with status 200 that holds fewer than 100 items ends the
  enumeration with that page as the last request; and once the accumulated total
  has reached the expected count, no page is requested at all.
\<close>

theorem get_services_last_page:
  "(length all_services < total_expected
      \<and> make_api_request http (ServicesPage customer_id page 100) s = ((services, Some 200), s1)
      \<and> py_iter (page_data services) = Inr data \<and> length data < 100
    \<longrightarrow> get_services_loop http customer_id all_services page s = (Inr (all_services @ data), s1)
      \<and> requested s1 = requested s @ [ServicesPage customer_id page 100])
   \<and> (total_expected \<le> length all_services
    \<longrightarrow> get_services_loop http customer_id all_services page s = (Inr all_services, s))"
proof (intro conjI impI)
  assume a: "length all_services < total_expected
      \<and> make_api_request http (ServicesPage customer_id page 100) s = ((services, Some 200), s1)
      \<and> py_iter (page_data services) = Inr data \<and> length data < 100"
  then have "make_api_request http (ServicesPage customer_id page 100) s =
      ((services, Some 200), s1)"
    by simp
  then show "requested s1 = requested s @ [ServicesPage customer_id page 100]"
    by (rule make_api_request_requested)
  have "\<not> py_truthy services \<Longrightarrow> data = []"
    using a by (cases services) (auto simp: dict_get_def)
  with a show "get_services_loop http customer_id all_services page s =
      (Inr (all_services @ data), s1)"
    by (subst get_services_loop.simps) auto
next
  assume "total_expected \<le> length all_services"
  then show "get_services_loop http customer_id all_services page s = (Inr all_services, s)"
    by (subst get_services_loop.simps) simp
qed

theorem get_services_last_page_witness:
  "get_services short_http (JStr (ustr ''cust'')) start =
     (Inr [one_service, one_service, one_service],
      \<lparr>world = (), requested = [ServicesPage (JStr (ustr ''cust'')) 1 100]\<rparr>)
   \<and> get_services_loop short_http (JStr (ustr ''cust'')) (replicate 500 one_service) 6 start =
     (Inr (replicate 500 one_service), start)"
proof -
  let ?s1 = "\<lparr>world = (), requested = [ServicesPage (JStr (ustr ''cust'')) 1 100]\<rparr>"
  have h1: "make_api_request short_http (ServicesPage (JStr (ustr ''cust'')) 1 100) start =
      ((JArr [one_service, one_service, one_service], Some 200), ?s1)"
    by (simp add: make_api_request_def short_http_def start_def)
  show ?thesis
    using get_services_last_page [of "[]" short_http "JStr (ustr ''cust'')" 1 start
        "JArr [one_service, one_service, one_service]" ?s1 "[one_service, one_service, one_service]"]
      get_services_last_page [of "replicate 500 one_service" short_http "JStr (ustr ''cust'')" 6 start]
    by (simp add: h1 get_services_def total_expected_def)
qed

lemma get_service_details_requested:
  "get_service_details http rp service_id s = (r, s1) \<Longrightarrow>
   requested s1 = requested s @ [Details service_id]"
  by (auto simp: get_service_details_def dest: make_api_request_requested
           split: prod.splits if_splits sum.splits)

lemma py_str_False: "py_str rp (JBool False) = ustr ''False''"
  by simp

lemma process_service_no_version:
  assumes "py_get service (ustr ''id'') JNull = Inr service_id" and "py_truthy service_id"
    and "get_service_details http rp service_id s = (Inr details, s1)"
    and "\<not> has_active_version (active_version details)"
  shows "process_service http rp service s =
     (Inr (Some \<lparr>col_service_name = name details,
                 col_service_id = service_id,
                 col_active_version = active_version details,
                 col_waf_status = ustr ''No active version'',
                 col_client_challenge_enabled = ustr ''False''\<rparr>), s1)"
  using assms by (simp add: process_service_def)

lemma get_service_details_failed:
  assumes "make_api_request http (Details service_id) s = ((details, status_code), s1)"
    and "status_code \<noteq> Some 200"
  shows "get_service_details http rp service_id s =
     (Inr \<lparr>name = JStr (ustr ''Unnamed Service''), active_version = ustr ''Unknown''\<rparr>, s1)"
  using assms by (simp add: get_service_details_def)

lemma not_has_active_version [simp]:
  "\<not> has_active_version (ustr ''Unknown'')" "\<not> has_active_version (ustr ''None'')"
  "\<not> has_active_version []"
  by (simp_all add: has_active_version_def)

text \<open>
  C8. When the metadata lookup of a service fails, by a transport failure or with a
  status other than 200, \<open>get_service_details\<close> returns the name "Unnamed Service" and
  the version "Unknown" as an ordinary result; the row of the service is written from
  them, and the metadata lookup is the only request made for the service, so the
  scanner is not invoked.
\<close>

theorem get_service_details_failure:
  assumes "make_api_request http (Details service_id) s = ((details, status_code), s1)"
    and "status_code \<noteq> Some 200"
    and "py_get service (ustr ''id'') JNull = Inr service_id" and "py_truthy service_id"
  shows "get_service_details http rp service_id s =
           (Inr \<lparr>name = JStr (ustr ''Unnamed Service''), active_version = ustr ''Unknown''\<rparr>, s1)
       \<and> process_service http rp service s =
           (Inr (Some \<lparr>col_service_name = JStr (ustr ''Unnamed Service''),
                       col_service_id = service_id,
                       col_active_version = ustr ''Unknown'',
                       col_waf_status = ustr ''No active version'',
                       col_client_challenge_enabled = ustr ''False''\<rparr>), s1)
       \<and> requested s1 = requested s @ [Details service_id]"
proof -
  note d = get_service_details_failed [OF assms(1,2), of rp]
  have "process_service http rp service s =
           (Inr (Some \<lparr>col_service_name = JStr (ustr ''Unnamed Service''),
                       col_service_id = service_id,
                       col_active_version = ustr ''Unknown'',
                       col_waf_status = ustr ''No active version'',
                       col_client_challenge_enabled = ustr ''False''\<rparr>), s1)"
    using process_service_no_version [OF assms(3,4) d] by simp
  with d make_api_request_requested [OF assms(1)] show ?thesis
    by simp
qed

theorem get_service_details_failure_witness:
  "get_service_details (const_http (Reply 500 None)) no_repr (JStr (ustr ''svc1'')) start =
     (Inr \<lparr>name = JStr (ustr ''Unnamed Service''), active_version = ustr ''Unknown''\<rparr>,
      \<lparr>world = (), requested = [Details (JStr (ustr ''svc1''))]\<rparr>)
   \<and> snd (process_service (const_http (Reply 500 None)) no_repr one_service start) =
      \<lparr>world = (), requested = [Details (JStr (ustr ''svc1''))]\<rparr>"
proof -
  have h: "make_api_request (const_http (Reply 500 None)) (Details (JStr (ustr ''svc1''))) start =
      ((JNull, Some 500), \<lparr>world = (), requested = [Details (JStr (ustr ''svc1''))]\<rparr>)"
    by (simp add: make_api_request_def const_http_def start_def)
  have i: "py_get one_service (ustr ''id'') JNull = Inr (JStr (ustr ''svc1''))"
    by (simp add: one_service_def dict_get_def)
  have t: "py_truthy (JStr (ustr ''svc1''))"
    by (simp add: ustr_def)
  show ?thesis
    using get_service_details_failure [OF h _ i t, of no_repr] by simp
qed

text \<open>
  C10. When the metadata lookup succeeds and its \<^verbatim>\<open>active_version\<close> field is a falsy value
  that is not a dict (the number 0, the empty string, \<^verbatim>\<open>None\<close>, \<^verbatim>\<open>False\<close>, the empty list),
  \<open>get_service_details\<close> returns the version "None"; the metadata lookup is the only
  request made for the service, so the scanner is not invoked.
\<close>

theorem bare_falsy_version_is_none:
  assumes "make_api_request http (Details service_id) s = ((JObj kvs, Some 200), s1)"
    and "map_of kvs (ustr ''active_version'') = Some v"
    and "\<not> is_dict v" and "\<not> py_truthy v"
    and "py_get service (ustr ''id'') JNull = Inr service_id" and "py_truthy service_id"
  shows "get_service_details http rp service_id s =
           (Inr \<lparr>name = dict_get kvs (ustr ''name'') (JStr (ustr ''Unnamed Service'')),
                 active_version = ustr ''None''\<rparr>, s1)
       \<and> process_service http rp service s =
           (Inr (Some \<lparr>col_service_name = dict_get kvs (ustr ''name'') (JStr (ustr ''Unnamed Service'')),
                       col_service_id = service_id,
                       col_active_version = ustr ''None'',
                       col_waf_status = ustr ''No active version'',
                       col_client_challenge_enabled = ustr ''False''\<rparr>), s1)
       \<and> requested s1 = requested s @ [Details service_id]"
proof -
  from assms(2) have ne: "kvs \<noteq> []"
    by auto
  have vn: "version_number rp v = ustr ''None''"
    using assms(3,4) by (cases v) simp_all
  have d: "get_service_details http rp service_id s =
           (Inr \<lparr>name = dict_get kvs (ustr ''name'') (JStr (ustr ''Unnamed Service'')),
                 active_version = ustr ''None''\<rparr>, s1)"
    using assms(1,2) ne vn by (simp add: get_service_details_def dict_get_def)
  have "process_service http rp service s =
           (Inr (Some \<lparr>col_service_name = dict_get kvs (ustr ''name'') (JStr (ustr ''Unnamed Service'')),
                       col_service_id = service_id,
                       col_active_version = ustr ''None'',
                       col_waf_status = ustr ''No active version'',
                       col_client_challenge_enabled = ustr ''False''\<rparr>), s1)"
    using process_service_no_version [OF assms(5,6) d] by simp
  with d make_api_request_requested [OF assms(1)] show ?thesis
    by simp
qed

theorem bare_falsy_version_is_none_witness:
  "process_service bare_zero_http no_repr one_service start =
     (Inr (Some \<lparr>col_service_name = JStr (ustr ''www''),
                 col_service_id = JStr (ustr ''svc1''),
                 col_active_version = ustr ''None'',
                 col_waf_status = ustr ''No active version'',
                 col_client_challenge_enabled = ustr ''False''\<rparr>),
      \<lparr>world = (), requested = [Details (JStr (ustr ''svc1''))]\<rparr>)"
proof -
  let ?kvs = "[(ustr ''name'', JStr (ustr ''www'')), (ustr ''active_version'', JInt 0)]"
  have h: "make_api_request bare_zero_http (Details (JStr (ustr ''svc1''))) start =
      ((JObj ?kvs, Some 200), \<lparr>world = (), requested = [Details (JStr (ustr ''svc1''))]\<rparr>)"
    by (simp add: make_api_request_def bare_zero_http_def start_def)
  have m: "map_of ?kvs (ustr ''active_version'') = Some (JInt 0)"
    by simp
  have i: "py_get one_service (ustr ''id'') JNull = Inr (JStr (ustr ''svc1''))"
    by (simp add: one_service_def dict_get_def)
  have t: "py_truthy (JStr (ustr ''svc1''))"
    by (simp add: ustr_def)
  show ?thesis
    using bare_falsy_version_is_none [OF h m _ _ i t, of no_repr] by (simp add: dict_get_def)
qed

lemma check_snippet_requested:
  "check_snippet http rp service_id version snippet_name s = (r, s') \<Longrightarrow>
   requested s' = requested s @ [Snippet service_id version snippet_name]"
  by (auto simp: check_snippet_def dest: make_api_request_requested split: prod.splits if_splits)

lemma check_client_challenge_requested:
  assumes "check_client_challenge http service_id version s = (r, s')"
  shows "requested s' = requested s @ [Vcl service_id version]
       \<or> requested s' = requested s @ [Vcl service_id version, GeneratedVcl service_id version]"
proof -
  obtain vd vs s1 where l: "make_api_request http (Vcl service_id version) s = ((vd, vs), s1)"
    by (metis surj_pair)
  obtain gd gs s2 where g: "make_api_request http (GeneratedVcl service_id version) s1 = ((gd, gs), s2)"
    by (metis surj_pair)
  show ?thesis
    using assms make_api_request_requested [OF l] make_api_request_requested [OF g]
    by (auto simp: check_client_challenge_def l g split: sum.splits bool.splits)
qed

lemma process_service_with_version:
  assumes "py_get service (ustr ''id'') JNull = Inr service_id" and "py_truthy service_id"
    and "get_service_details http rp service_id s = (Inr details, s1)"
    and "has_active_version (active_version details)"
  shows "prefix (requested s @ [Details service_id,
                   Snippet service_id (active_version details) snippet_name_default,
                   Vcl service_id (active_version details)])
           (requested (snd (process_service http rp service s)))"
proof -
  let ?v = "active_version details"
  obtain w s2 where c: "check_snippet http rp service_id ?v snippet_name_default s1 = (w, s2)"
    by (metis surj_pair)
  obtain r s3 where k: "check_client_challenge http service_id ?v s2 = (r, s3)"
    by (metis surj_pair)
  have s: "snd (process_service http rp service s) = s3"
    using assms c k by (simp add: process_service_def split: sum.splits)
  have "requested s2 = requested s @ [Details service_id, Snippet service_id ?v snippet_name_default]"
    using get_service_details_requested [OF assms(3)] check_snippet_requested [OF c] by simp
  with check_client_challenge_requested [OF k] show ?thesis
    unfolding s by (auto simp: prefix_def)
qed

text \<open>
  C5, as stated, fails on the challenge field. For a service whose metadata lookup
  gets no answer the version is "Unknown", the scanner is not invoked, and the
  challenge field of the row is the text "False": the sentinel "No active version"
  is the value of the WAF status field.
\<close>

theorem scanner_sentinel_counterexample:
  "process_service silent_http no_repr one_service start =
     (Inr (Some \<lparr>col_service_name = JStr (ustr ''Unnamed Service''),
                 col_service_id = JStr (ustr ''svc1''),
                 col_active_version = ustr ''Unknown'',
                 col_waf_status = ustr ''No active version'',
                 col_client_challenge_enabled = ustr ''False''\<rparr>),
      \<lparr>world = (), requested = [Details (JStr (ustr ''svc1''))]\<rparr>)
   \<and> ustr ''False'' \<noteq> ustr ''No active version''
   \<and> ustr ''False'' \<noteq> ustr ''no active version''"
  by (simp add: process_service_def one_service_def dict_get_def get_service_details_def
        make_api_request_def silent_http_def start_def)

text \<open>
  C5, amended. For every processed service, the scanner is invoked only when the
  version text returned for it is non-empty and is neither "None" nor "Unknown".
  Otherwise the metadata lookup is the only request made, the WAF status field is
  the sentinel "No active version" and the challenge field is "False". With such a
  version, the snippet and the listing of the version are requested.
\<close>

theorem scanner_needs_active_version:
  assumes "py_get service (ustr ''id'') JNull = Inr service_id" and "py_truthy service_id"
    and "get_service_details http rp service_id s = (Inr details, s1)"
  shows "(\<not> has_active_version (active_version details) \<longrightarrow>
            process_service http rp service s =
              (Inr (Some \<lparr>col_service_name = name details,
                          col_service_id = service_id,
                          col_active_version = active_version details,
                          col_waf_status = ustr ''No active version'',
                          col_client_challenge_enabled = ustr ''False''\<rparr>), s1)
            \<and> requested s1 = requested s @ [Details service_id])
       \<and> (has_active_version (active_version details) \<longrightarrow>
            prefix (requested s @ [Details service_id,
                      Snippet service_id (active_version details) snippet_name_default,
                      Vcl service_id (active_version details)])
              (requested (snd (process_service http rp service s))))"
  using process_service_no_version [OF assms] process_service_with_version [OF assms]
    get_service_details_requested [OF assms(3)]
  by blast

theorem scanner_needs_active_version_witness:
  "has_active_version (ustr ''3'')
   \<and> requested (snd (process_service audit_http no_repr one_service start)) =
       [Details (JStr (ustr ''svc1'')),
        Snippet (JStr (ustr ''svc1'')) (ustr ''3'') snippet_name_default,
        Vcl (JStr (ustr ''svc1'')) (ustr ''3'')]
   \<and> \<not> has_active_version (ustr ''Unknown'')
   \<and> requested (snd (process_service silent_http no_repr one_service start)) =
       [Details (JStr (ustr ''svc1''))]"
proof -
  let ?sid = "JStr (ustr ''svc1'')"
  let ?s1 = "\<lparr>world = (), requested = [Details ?sid]\<rparr>"
  have i: "py_get one_service (ustr ''id'') JNull = Inr ?sid"
    by (simp add: one_service_def dict_get_def)
  have t: "py_truthy ?sid"
    by simp
  have three: "str_int 3 = ustr ''3''"
    by (simp add: str_int_def digits_of.simps ustr_def)
  have a: "get_service_details audit_http no_repr ?sid start =
      (Inr \<lparr>name = JStr (ustr ''www''), active_version = ustr ''3''\<rparr>, ?s1)"
    by (simp add: get_service_details_def make_api_request_def audit_http_def start_def
          dict_get_def three)
  have b: "get_service_details silent_http no_repr ?sid start =
      (Inr \<lparr>name = JStr (ustr ''Unnamed Service''), active_version = ustr ''Unknown''\<rparr>, ?s1)"
    by (simp add: get_service_details_def make_api_request_def silent_http_def start_def)
  have h: "has_active_version (ustr ''3'')"
    by (simp add: has_active_version_def)
  have run: "requested (snd (process_service audit_http no_repr one_service start)) =
       [Details ?sid, Snippet ?sid (ustr ''3'') snippet_name_default, Vcl ?sid (ustr ''3'')]"
    by (simp add: process_service_def i t a h check_snippet_def make_api_request_def
          audit_http_def check_client_challenge_def listing_tier_def dict_get_def
          directive_found_text)
  show ?thesis
    using scanner_needs_active_version [OF i t a] scanner_needs_active_version [OF i t b] h run
    by (simp add: start_def)
qed

lemma listing_tier_no_match:
  "vcl_status \<noteq> Some 200 \<or> (\<forall>units. vcl_data \<noteq> JArr units) \<or> vcl_data = JArr [] \<Longrightarrow>
   listing_tier vcl_data vcl_status = Inr False"
  by (cases vcl_data) (auto simp: listing_tier_def)

text \<open>
  C2. When the scan of the named units yields no match, which includes a listing
  lookup that fails, a listing that is empty and a payload that is not a list,
  \<open>check_client_challenge\<close> requests the generated VCL and applies to its content the
  same test, the substring first and the pattern next. The result is true when that
  content matches, and false when it does not or when the second lookup fails or
  does not return a dict.
\<close>

theorem check_client_challenge_fallback:
  assumes "make_api_request http (Vcl service_id version) s = ((vcl_data, vcl_status), s1)"
    and "vcl_status \<noteq> Some 200 \<or> (\<forall>units. vcl_data \<noteq> JArr units) \<or> vcl_data = JArr []
         \<or> listing_tier vcl_data vcl_status = Inr False"
    and "make_api_request http (GeneratedVcl service_id version) s1 = ((gen_data, gen_status), s2)"
  shows "snd (check_client_challenge http service_id version s) = s2
       \<and> requested s2 = requested s @ [Vcl service_id version, GeneratedVcl service_id version]
       \<and> (\<forall>kvs. gen_status = Some 200 \<and> gen_data = JObj kvs \<longrightarrow>
            fst (check_client_challenge http service_id version s) =
              directive_found (dict_get kvs (ustr ''content'') (JStr [])))
       \<and> (\<forall>kvs c. gen_status = Some 200 \<and> gen_data = JObj kvs
              \<and> dict_get kvs (ustr ''content'') (JStr []) = JStr c \<longrightarrow>
            fst (check_client_challenge http service_id version s) =
              Inr (sublist exact_match c \<or> re_search pattern c))
       \<and> (gen_status \<noteq> Some 200 \<or> \<not> is_dict gen_data \<longrightarrow>
            fst (check_client_challenge http service_id version s) = Inr False)"
proof -
  have n: "listing_tier vcl_data vcl_status = Inr False"
    using assms(2) listing_tier_no_match [of vcl_status vcl_data] by blast
  have r: "check_client_challenge http service_id version s =
      (generated_tier gen_data gen_status, s2)"
    by (simp add: check_client_challenge_def assms(1,3) n)
  have q: "requested s2 = requested s @ [Vcl service_id version, GeneratedVcl service_id version]"
    using make_api_request_requested [OF assms(1)] make_api_request_requested [OF assms(3)]
    by simp
  have f: "gen_status \<noteq> Some 200 \<or> \<not> is_dict gen_data \<Longrightarrow>
      generated_tier gen_data gen_status = Inr False"
    by (cases gen_data) (auto simp: generated_tier_def)
  show ?thesis
    using q f by (auto simp: r generated_tier_def directive_found_text)
qed

theorem check_client_challenge_fallback_witness:
  "check_client_challenge blob_http (JStr (ustr ''svc1'')) (ustr ''3'') start =
     (Inr True, \<lparr>world = (), requested = [Vcl (JStr (ustr ''svc1'')) (ustr ''3''),
                                          GeneratedVcl (JStr (ustr ''svc1'')) (ustr ''3'')]\<rparr>)
   \<and> check_client_challenge silent_http (JStr (ustr ''svc1'')) (ustr ''3'') start =
     (Inr False, \<lparr>world = (), requested = [Vcl (JStr (ustr ''svc1'')) (ustr ''3''),
                                           GeneratedVcl (JStr (ustr ''svc1'')) (ustr ''3'')]\<rparr>)"
proof -
  let ?sid = "JStr (ustr ''svc1'')"
  let ?s1 = "\<lparr>world = (), requested = [Vcl ?sid (ustr ''3'')]\<rparr>"
  let ?s2 = "\<lparr>world = (), requested = [Vcl ?sid (ustr ''3''), GeneratedVcl ?sid (ustr ''3'')]\<rparr>"
  let ?listing = "JArr [JObj [(ustr ''name'', JStr (ustr ''main'')),
                        (ustr ''content'', JStr (ustr ''sub vcl_recv { }''))]]"
  let ?kvs = "[(ustr ''content'', JStr loose_text)]"
  have a1: "make_api_request blob_http (Vcl ?sid (ustr ''3'')) start = ((?listing, Some 200), ?s1)"
    by (simp add: make_api_request_def blob_http_def start_def)
  have a2: "make_api_request blob_http (GeneratedVcl ?sid (ustr ''3'')) ?s1 =
      ((JObj ?kvs, Some 200), ?s2)"
    by (simp add: make_api_request_def blob_http_def)
  have a3: "listing_tier ?listing (Some 200) = Inr False"
    by (simp add: listing_tier_def dict_get_def directive_found_text exact_match_def ustr_def
          sublist_code pattern_def lits_def lit_ignorecase_def ascii_letter_def ascii_lower_def
          py_isspace_def)
  have "directive_variant (ustr ''PRAGMA'' @ ustr ''  '' @ ustr ''optional_param'' @ ustr '' '' @
      ustr ''client_challenge_enabled'' @ ustr ''   '' @ ustr ''TRUE'')"
    by (rule directive_variant.intros) (simp_all add: ustr_def ascii_lower_def py_isspace_def)
  then have a4: "re_search pattern loose_text"
    unfolding loose_text_def by (rule directive_variant_search) (rule sublist_appendI)
  have b1: "make_api_request silent_http (Vcl ?sid (ustr ''3'')) start = ((JNull, None), ?s1)"
    by (simp add: make_api_request_def silent_http_def start_def)
  have b2: "make_api_request silent_http (GeneratedVcl ?sid (ustr ''3'')) ?s1 = ((JNull, None), ?s2)"
    by (simp add: make_api_request_def silent_http_def)
  have x: "check_client_challenge blob_http ?sid (ustr ''3'') start = (Inr True, ?s2)"
    using check_client_challenge_fallback [OF a1 _ a2] a3 a4
    by (simp add: prod_eq_iff dict_get_def directive_found_text)
  have y: "check_client_challenge silent_http ?sid (ustr ''3'') start = (Inr False, ?s2)"
    using check_client_challenge_fallback [OF b1 _ b2]
    by (simp add: prod_eq_iff)
  from x y show ?thesis
    by simp
qed

lemma has_usable_id_text:
  "map_of kvs (ustr ''id'') = None \<Longrightarrow> \<not> has_usable_id (JObj kvs)"
  "map_of kvs (ustr ''id'') = Some (JStr i) \<Longrightarrow> has_usable_id (JObj kvs) \<longleftrightarrow> i \<noteq> []"
  by (simp_all add: has_usable_id_def dict_get_def)

lemma process_service_row:
  "process_service http rp service s = (Inr r, s') \<Longrightarrow> (r \<noteq> None) = has_usable_id service"
  by (cases service)
     (auto simp: process_service_def has_usable_id_def split: if_splits prod.splits sum.splits)

lemma write_rows_length:
  "write_rows http rp services s = (Inr rows, s') \<Longrightarrow>
   length rows = length (filter has_usable_id services)"
proof (induction services arbitrary: s rows s')
  case Nil
  then show ?case by simp
next
  case (Cons service services)
  from Cons.prems obtain r s1 rest where p: "process_service http rp service s = (Inr r, s1)"
    and w: "write_rows http rp services s1 = (Inr rest, s')"
    and rows: "rows = (case r of None \<Rightarrow> rest | Some row \<Rightarrow> row # rest)"
    by (auto split: prod.splits sum.splits)
  from Cons.IH [OF w] process_service_row [OF p] rows show ?case
    by (cases r) auto
qed

lemma make_api_request_fails:
  assumes "\<forall>endpoint w. lookup_fails (fst (http endpoint w))"
    and "make_api_request http ep s = ((j, st), s')"
  shows "st \<noteq> Some 200"
proof -
  obtain r w' where h: "http ep (world s) = (r, w')"
    by (cases "http ep (world s)")
  with assms(1) have "lookup_fails r"
    by (metis fst_conv)
  with assms(2) h show ?thesis
    by (auto simp: make_api_request_def Let_def lookup_fails_def
          split: http_reply.splits if_splits option.splits)
qed

lemma process_service_fails:
  assumes "\<forall>endpoint w. lookup_fails (fst (http endpoint w))" and "is_dict service"
  shows "\<exists>r s'. process_service http rp service s = (Inr r, s')"
proof -
  from assms(2) obtain kvs where k: "service = JObj kvs"
    by (cases service) auto
  let ?sid = "dict_get kvs (ustr ''id'') JNull"
  show ?thesis
  proof (cases "py_truthy ?sid")
    case False
    then show ?thesis
      by (simp add: process_service_def k)
  next
    case True
    obtain j st s1 where m: "make_api_request http (Details ?sid) s = ((j, st), s1)"
      by (metis surj_pair)
    note d = get_service_details_failed [OF m make_api_request_fails [OF assms(1) m], of rp]
    have "py_get service (ustr ''id'') JNull = Inr ?sid"
      by (simp add: k)
    from process_service_no_version [OF this True d] show ?thesis
      by simp
  qed
qed

lemma write_rows_fails:
  assumes "\<forall>endpoint w. lookup_fails (fst (http endpoint w))"
  shows "list_all is_dict services \<Longrightarrow> \<exists>rows s'. write_rows http rp services s = (Inr rows, s')"
proof (induction services arbitrary: s)
  case Nil
  show ?case by simp
next
  case (Cons service services)
  then obtain r s1 where p: "process_service http rp service s = (Inr r, s1)"
    using process_service_fails [OF assms, of service rp s] by auto
  from Cons obtain rest s2 where w: "write_rows http rp services s1 = (Inr rest, s2)"
    by fastforce
  show ?case
    by (simp add: p w)
qed

text \<open>
  C4. The rows written to a file are as many as the enumerated services whose
  \<^verbatim>\<open>id\<close> is present and truthy (for a string, not empty): a service with such an
  identifier yields one row and a service without yields none. When every remote
  lookup fails the rows are still written, one for each such service. \<open>main\<close> writes
  both files from the list \<open>get_services\<close> returned.
\<close>

theorem write_rows_count:
  "(\<forall>rows s'. write_rows http rp services s = (Inr rows, s') \<longrightarrow>
       length rows = length (filter has_usable_id services))
   \<and> (list_all is_dict services \<and> (\<forall>endpoint w. lookup_fails (fst (http endpoint w))) \<longrightarrow>
       (\<exists>rows s'. write_rows http rp services s = (Inr rows, s')
          \<and> length rows = length (filter has_usable_id services)))
   \<and> (\<forall>report fixed_report s'.
         main http rp customer_id s = (Inr (Some (report, fixed_report)), s') \<longrightarrow>
         (\<exists>enumerated s1. get_services http customer_id s = (Inr enumerated, s1)
            \<and> length report = length (filter has_usable_id enumerated)
            \<and> length fixed_report = length (filter has_usable_id enumerated)))"
proof (intro conjI allI impI)
  fix rows s'
  assume "write_rows http rp services s = (Inr rows, s')"
  then show "length rows = length (filter has_usable_id services)"
    by (rule write_rows_length)
next
  assume a: "list_all is_dict services \<and> (\<forall>endpoint w. lookup_fails (fst (http endpoint w)))"
  then obtain rows s' where w: "write_rows http rp services s = (Inr rows, s')"
    using write_rows_fails [of http services rp s] by blast
  with write_rows_length [OF w]
  show "\<exists>rows s'. write_rows http rp services s = (Inr rows, s')
          \<and> length rows = length (filter has_usable_id services)"
    by blast
next
  fix report fixed_report s'
  assume m: "main http rp customer_id s = (Inr (Some (report, fixed_report)), s')"
  then obtain enumerated s1 s2 where g: "get_services http customer_id s = (Inr enumerated, s1)"
    and w1: "write_rows http rp enumerated s1 = (Inr report, s2)"
    and w2: "write_rows http rp enumerated s2 = (Inr fixed_report, s')"
    by (auto simp: main_def split: prod.splits sum.splits if_splits)
  with write_rows_length [OF w1] write_rows_length [OF w2]
  show "\<exists>enumerated s1. get_services http customer_id s = (Inr enumerated, s1)
            \<and> length report = length (filter has_usable_id enumerated)
            \<and> length fixed_report = length (filter has_usable_id enumerated)"
    by blast
qed

theorem write_rows_count_witness:
  "list_all is_dict sample_services
   \<and> (\<forall>endpoint w. lookup_fails (fst (silent_http endpoint w)))
   \<and> length (filter has_usable_id sample_services) = 1
   \<and> (\<exists>rows s'. write_rows silent_http no_repr sample_services start = (Inr rows, s')
         \<and> length rows = 1)"
proof -
  have d: "list_all is_dict sample_services"
    by (simp add: sample_services_def one_service_def)
  have f: "\<forall>endpoint w. lookup_fails (fst (silent_http endpoint w))"
    by (simp add: silent_http_def lookup_fails_def)
  have n: "length (filter has_usable_id sample_services) = 1"
    by (simp add: sample_services_def one_service_def has_usable_id_def dict_get_def)
  from write_rows_count [of silent_http no_repr sample_services start] d f
  have "\<exists>rows s'. write_rows silent_http no_repr sample_services start = (Inr rows, s')
          \<and> length rows = length (filter has_usable_id sample_services)"
    by blast
  with d f n show ?thesis
    by simp
qed

end
